theory Spec2Isabelle
  imports Complex_Main
begin

section \<open>The operator console of the rover: control state\<close>

text \<open>
  The development follows \<^verbatim>\<open>nav_pkg/nav_pkg/help.py\<close>, class \<^verbatim>\<open>HazardControlGUI\<close>.
  Python floats are read as real numbers: the code only adds and subtracts 1.0, compares,
  divides a slider position by 100 and divides a stick vector by its norm. Widgets that
  only display (labels, colours, the plot) are left out; the fields the control logic reads
  and writes are all kept.

  \<^item> \<^verbatim>\<open>button_states\<close> is a dictionary with the four fixed keys
    \<^verbatim>\<open>'forward'\<close>, \<^verbatim>\<open>'backward'\<close>, \<^verbatim>\<open>'left'\<close>, \<^verbatim>\<open>'right'\<close>: a total function on
    the four keys.
  \<^item> \<^verbatim>\<open>ros_node\<close> is \<^verbatim>\<open>None\<close> until the ROS thread has built the node: the field says
    whether the node exists.
  \<^item> \<^verbatim>\<open>speed_slider\<close> is the position of the speed slider (the value of the widget).
\<close>

datatype button = Forward | Backward | Left | Right

type_synonym velocity_intent = "real \<times> real \<times> real"

record gui =
  gamepad_connected :: bool
  last_gamepad_check :: int
  speed :: real
  x_dir :: real
  z_dir :: real
  button_states :: "button \<Rightarrow> bool"
  hazard_distance :: real
  emergency_active :: bool
  hazard_threshold :: real
  safe_mode_override :: bool
  ros_node :: bool
  ros_connected :: bool
  speed_slider :: int
  last_x :: real
  last_z :: real
  last_speed :: real

text \<open>
  \<^verbatim>\<open>__init__\<close>: the values the constructor assigns. Whether a gamepad answers
  (\<^verbatim>\<open>init_gamepad\<close>) depends on the machine, and the start position of the speed slider
  is set by \<^verbatim>\<open>init_controls\<close>, which the file does not contain: both are parameters.
\<close>

definition init :: "bool \<Rightarrow> int \<Rightarrow> gui" where
  "init pad slider0 =
     \<lparr> gamepad_connected = pad,
       last_gamepad_check = 0,
       speed = 0,
       x_dir = 0,
       z_dir = 0,
       button_states = (\<lambda>_. False),
       hazard_distance = 999,
       emergency_active = False,
       hazard_threshold = 5,
       safe_mode_override = False,
       ros_node = False,
       ros_connected = False,
       speed_slider = slider0,
       last_x = 0,
       last_z = 0,
       last_speed = 0 \<rparr>"

text \<open>
  \<^verbatim>\<open>self.deadzone = 0.01\<close> (line 114) is assigned once by the constructor and never
  written again: a constant.
\<close>

definition deadzone :: real where
  "deadzone = 1 / 100"

text \<open>
  \<^verbatim>\<open>init_hazard_display\<close>, line 206: \<^verbatim>\<open>threshold_slider.setRange(10, 100)\<close>.
\<close>

definition threshold_slider_min :: int where
  "threshold_slider_min = 10"

definition threshold_slider_max :: int where
  "threshold_slider_max = 100"

text \<open>
  Modelled from the spec: \<^verbatim>\<open>update_threshold\<close>, the handler of the slider, is not in the
  file. The operator control sets the threshold between 1.0 and 10.0 metres, and line 207
  places the slider at \<^verbatim>\<open>int(hazard_threshold * 10)\<close>: one slider step is a tenth of a
  metre.
\<close>

definition threshold_of_slider :: "int \<Rightarrow> real" where
  "threshold_of_slider v = real_of_int v / 10"

section \<open>The dispatch tick: \<^verbatim>\<open>update_output\<close>\<close>

text \<open>
  Lines 324 to 333: the direction of the four buttons, starting from 0.0 and adding or
  subtracting 1.0 per held button.
\<close>

definition manual_direction :: "(button \<Rightarrow> bool) \<Rightarrow> real \<times> real" where
  "manual_direction bs =
     (let x0 = 0; z0 = 0;
          x1 = (if bs Forward then x0 + 1 else x0);
          x2 = (if bs Backward then x1 - 1 else x1);
          z1 = (if bs Left then z0 + 1 else z0);
          z2 = (if bs Right then z1 - 1 else z1)
      in (x2, z2))"

text \<open>
  Lines 335 to 337: the comparison of the candidate with the values recorded at the last
  call, field by field, against \<^verbatim>\<open>self.deadzone\<close>.
\<close>

definition exceeds :: "real \<Rightarrow> velocity_intent \<Rightarrow> velocity_intent \<Rightarrow> bool" where
  "exceeds eps c l =
     (case c of (x, z, s) \<Rightarrow> case l of (lx, lz, ls) \<Rightarrow>
        \<bar>x - lx\<bar> > eps \<or> \<bar>z - lz\<bar> > eps \<or> \<bar>s - ls\<bar> > eps)"

text \<open>
  One run of \<^verbatim>\<open>update_output\<close>. The result is the new state and the call of
  \<^verbatim>\<open>ros_node.wheel_drive(x, z, speed, override_safe_mode)\<close> the run makes, if it makes one.
\<close>

definition update_output :: "gui \<Rightarrow> gui \<times> (velocity_intent \<times> bool) option" where
  "update_output g =
     (if \<not> ros_node g then (g, None)
      else
        (case manual_direction (button_states g) of (x, z) \<Rightarrow>
           if exceeds deadzone (x, z, speed g) (last_x g, last_z g, last_speed g)
           then (g\<lparr>last_x := x, last_z := z, last_speed := speed g\<rparr>,
                 Some ((x, z, speed g), safe_mode_override g))
           else (g, None)))"


section \<open>The gamepad poll: \<^verbatim>\<open>update_gamepad\<close>\<close>

text \<open>
  What the joystick reports at one poll: its axes and its buttons. \<^verbatim>\<open>None\<close> stands for no
  device (the probe of \<^verbatim>\<open>init_gamepad\<close> finds none, or a read raises).
\<close>

record joystick =
  axes :: "real list"
  buttons :: "bool list"

text \<open>Python's \<^verbatim>\<open>int()\<close> of a float: truncation towards zero.\<close>

definition py_int :: "real \<Rightarrow> int" where
  "py_int r = (if 0 \<le> r then \<lfloor>r\<rfloor> else \<lceil>r\<rceil>)"

text \<open>The local variable \<^verbatim>\<open>deadzone = 0.2\<close> of line 291.\<close>

definition stick_deadzone :: real where
  "stick_deadzone = 2 / 10"

text \<open>Lines 292 and 293: \<^verbatim>\<open>x_dir\<close> from axis 1 (negated), \<^verbatim>\<open>z_dir\<close> from axis 0.\<close>

definition deadzone_dir :: "real \<Rightarrow> real \<Rightarrow> real \<times> real" where
  "deadzone_dir left_x left_y =
     ((if \<bar>left_y\<bar> > stick_deadzone then - left_y else 0),
      (if \<bar>left_x\<bar> > stick_deadzone then left_x else 0))"

text \<open>Lines 296 to 299: the vector is divided by its norm when the norm is above 1.\<close>

definition normalize :: "real \<times> real \<Rightarrow> real \<times> real" where
  "normalize d =
     (case d of (x, z) \<Rightarrow>
        let magnitude = sqrt (x\<^sup>2 + z\<^sup>2)
        in if magnitude > 1 then (x / magnitude, z / magnitude) else (x, z))"

definition stick_direction :: "real \<Rightarrow> real \<Rightarrow> real \<times> real" where
  "stick_direction left_x left_y = normalize (deadzone_dir left_x left_y)"

text \<open>
  One run of \<^verbatim>\<open>update_gamepad\<close> at time \<open>current_time\<close> (milliseconds) with the device
  \<open>pad\<close>. The second component says whether the run calls \<^verbatim>\<open>emergency_stop()\<close>
  (START, button 9), a method the file does not contain. Every exception inside the
  \<^verbatim>\<open>try\<close> ends in the handler, which marks the gamepad as disconnected: reading a device
  that is gone, and asking for button 9 of a device with fewer buttons.
\<close>

definition update_gamepad :: "int \<Rightarrow> joystick option \<Rightarrow> gui \<Rightarrow> gui \<times> bool" where
  "update_gamepad current_time pad g =
     (let g1 = (if current_time - last_gamepad_check g > 5000
                then g\<lparr>last_gamepad_check := current_time, gamepad_connected := (pad \<noteq> None)\<rparr>
                else g)
      in if \<not> gamepad_connected g1 then (g1, False)
         else
           (case pad of
              None \<Rightarrow> (g1\<lparr>gamepad_connected := False\<rparr>, False)
            | Some j \<Rightarrow>
                let num_axes = length (axes j)
                in if num_axes > 0 then
                     let left_x = axes j ! 0;
                         left_y = (if num_axes > 1 then axes j ! 1 else 0);
                         right_x = (if num_axes > 3 then axes j ! 3 else 0);
                         current_slider_val = speed_slider g1;
                         change = py_int (right_x * 5);
                         new_speed_val = max 0 (min 100 (current_slider_val + change));
                         d = stick_direction left_x left_y;
                         g2 = g1\<lparr>speed_slider := new_speed_val,
                                 speed := real_of_int new_speed_val / 100,
                                 x_dir := fst d,
                                 z_dir := snd d\<rparr>
                     in if length (buttons j) > 9 then (g2, buttons j ! 9)
                        else (g2\<lparr>gamepad_connected := False\<rparr>, False)
                   else (g1, False)))"

section \<open>Hazard monitor and safety interlock\<close>

datatype safety_state = NORMAL | EMERGENCY

datatype effective_mode = NORMAL_OPERATION | EMERGENCY_STOPPED | OVERRIDDEN

text \<open>
  Modelled from the spec: the method that turns a hazard sample into a safety state
  (\<^verbatim>\<open>hazard_callback_gui\<close>, \<^verbatim>\<open>update_hazard_display\<close>) is not in the file, which only
  initialises \<^verbatim>\<open>hazard_distance\<close>, \<^verbatim>\<open>hazard_threshold\<close> and \<^verbatim>\<open>emergency_active\<close>.
  The spec: \<^verbatim>\<open>state()\<close> returns EMERGENCY iff \<^verbatim>\<open>current_distance_m < threshold_m\<close>; else
  NORMAL.
\<close>

definition hazard_state :: "real \<Rightarrow> real \<Rightarrow> safety_state" where
  "hazard_state current_distance_m threshold_m =
     (if current_distance_m < threshold_m then EMERGENCY else NORMAL)"

text \<open>
  Modelled from the spec: the derived mode of section 3. EMERGENCY_STOPPED iff the
  state is EMERGENCY and there is no override; OVERRIDDEN iff the state is EMERGENCY and
  there is an override; otherwise NORMAL.
\<close>

definition effective :: "safety_state \<Rightarrow> bool \<Rightarrow> effective_mode" where
  "effective hazard override =
     (if hazard = EMERGENCY \<and> \<not> override then EMERGENCY_STOPPED
      else if hazard = EMERGENCY \<and> override then OVERRIDDEN
      else NORMAL_OPERATION)"

text \<open>
  Modelled from the spec: the body of \<^verbatim>\<open>HazardPublisherNode.wheel_drive\<close>, which receives
  the intent and the override flag, is not in the file. The spec's
  \<^verbatim>\<open>SafetyInterlock.gate\<close>: the zero intent in EMERGENCY_STOPPED, the input intent
  unmodified in OVERRIDDEN and in NORMAL, with the mode reported.
\<close>

definition gate :: "velocity_intent \<Rightarrow> safety_state \<Rightarrow> bool \<Rightarrow> velocity_intent \<times> effective_mode" where
  "gate intent hazard override =
     (case effective hazard override of
        EMERGENCY_STOPPED \<Rightarrow> ((0, 0, 0), EMERGENCY_STOPPED)
      | OVERRIDDEN \<Rightarrow> (intent, OVERRIDDEN)
      | NORMAL_OPERATION \<Rightarrow> (intent, NORMAL_OPERATION))"


section \<open>Scenarios\<close>


definition g_cruise :: gui where
  "g_cruise = (init False 50)\<lparr>ros_node := True, button_states := (\<lambda>b. b = Forward), speed := 1 / 2\<rparr>"



definition g_diagonal :: gui where
  "g_diagonal = (init False 0)\<lparr>ros_node := True, button_states := (\<lambda>b. b = Forward \<or> b = Left)\<rparr>"

definition pad_forward :: joystick where
  "pad_forward = \<lparr>axes = [0, - (1 / 2)], buttons = replicate 10 False\<rparr>"

definition pad_corner :: joystick where
  "pad_corner = \<lparr>axes = [1, - (3 / 4)], buttons = replicate 10 False\<rparr>"

definition g_stick :: gui where
  "g_stick = fst (update_gamepad 0 (Some pad_forward) ((init True 50)\<lparr>ros_node := True\<rparr>))"

section \<open>General facts about the dispatch tick\<close>










lemma update_output_call:
  "snd (update_output g) =
     (if ros_node g \<and>
         exceeds deadzone (fst (manual_direction (button_states g)),
                           snd (manual_direction (button_states g)), speed g)
                          (last_x g, last_z g, last_speed g)
      then Some ((fst (manual_direction (button_states g)),
                  snd (manual_direction (button_states g)), speed g), safe_mode_override g)
      else None)"
  by (cases "manual_direction (button_states g)") (simp add: update_output_def)


lemma manual_cases:
  "fst (manual_direction bs) \<in> {-1, 0, 1} \<and> snd (manual_direction bs) \<in> {-1, 0, 1}"
  by (simp add: manual_direction_def Let_def)

lemma g_stick_eq:
  "g_stick = (init True 50)\<lparr>ros_node := True, speed_slider := 50, speed := 1 / 2, x_dir := 1 / 2, z_dir := 0\<rparr>"
  by (simp add: g_stick_def pad_forward_def update_gamepad_def init_def Let_def py_int_def
      stick_direction_def deadzone_dir_def stick_deadzone_def normalize_def power2_eq_square)

section \<open>General facts about the gamepad poll\<close>

lemma normalize_unit:
  "sqrt ((fst (normalize d))\<^sup>2 + (snd (normalize d))\<^sup>2) \<le> 1"
proof (cases d)
  case (Pair x z)
  define m where "m = sqrt (x\<^sup>2 + z\<^sup>2)"
  show ?thesis
  proof (cases "m > 1")
    case False
    then show ?thesis by (simp add: Pair normalize_def m_def Let_def)
  next
    case True
    have sq: "m\<^sup>2 = x\<^sup>2 + z\<^sup>2"
      by (simp add: m_def)
    have "(x / m)\<^sup>2 + (z / m)\<^sup>2 = (x\<^sup>2 + z\<^sup>2) / m\<^sup>2"
      by (simp add: power_divide add_divide_distrib)
    also have "\<dots> = m\<^sup>2 / m\<^sup>2"
      by (simp only: sq)
    also have "\<dots> = 1"
      using True by simp
    finally have "sqrt ((x / m)\<^sup>2 + (z / m)\<^sup>2) = 1"
      by simp
    with True show ?thesis
      by (simp add: Pair normalize_def m_def [symmetric] Let_def)
  qed
qed

lemma stick_direction_norm:
  "sqrt ((fst (stick_direction a b))\<^sup>2 + (snd (stick_direction a b))\<^sup>2) \<le> 1"
  by (simp only: stick_direction_def normalize_unit)

lemma update_gamepad_keeps_unit:
  assumes "sqrt ((x_dir g)\<^sup>2 + (z_dir g)\<^sup>2) \<le> 1"
  shows "sqrt ((x_dir (fst (update_gamepad t pad g)))\<^sup>2 +
               (z_dir (fst (update_gamepad t pad g)))\<^sup>2) \<le> 1"
  using assms stick_direction_norm
  by (simp add: update_gamepad_def Let_def split: option.split)

lemma sqrt_corner: "sqrt ((3 / 4)\<^sup>2 + 1) = (5 / 4 :: real)"
  by (rule real_sqrt_unique) (simp_all add: power2_eq_square)

lemma stick_corner: "stick_direction 1 (- (3 / 4)) = (3 / 5, 4 / 5)"
  by (simp add: stick_direction_def deadzone_dir_def stick_deadzone_def normalize_def Let_def
      sqrt_corner)

lemma update_gamepad_direction:
  assumes "gamepad_connected g \<or> t - last_gamepad_check g > 5000" and "axes j \<noteq> []"
  shows "(x_dir (fst (update_gamepad t (Some j) g)), z_dir (fst (update_gamepad t (Some j) g))) =
           stick_direction (axes j ! 0) (if length (axes j) > 1 then axes j ! 1 else 0)"
  using assms by (auto simp add: update_gamepad_def Let_def)

section \<open>The safety interlock\<close>

text \<open>
  Claim C1. For every velocity intent, the gate called with hazard state EMERGENCY and no
  override returns exactly the zero intent (0, 0, 0), whatever the input; called with
  EMERGENCY and the override set it returns the input intent unmodified.
\<close>

theorem gate_emergency:
  "gate i EMERGENCY False = ((0, 0, 0), EMERGENCY_STOPPED) \<and>
   gate i EMERGENCY True = (i, OVERRIDDEN)"
  by (simp add: gate_def effective_def)

section \<open>The hazard monitor\<close>

text \<open>
  Claim C2. For every distance \<open>d\<close> and threshold \<open>t\<close>, the state of the hazard monitor
  is EMERGENCY if and only if \<open>d < t\<close>, strictly; a distance equal to the threshold gives
  NORMAL.
\<close>

theorem hazard_state_strict:
  "(hazard_state d t = EMERGENCY \<longleftrightarrow> d < t) \<and>
   (hazard_state d t = NORMAL \<longleftrightarrow> t \<le> d) \<and>
   hazard_state t t = NORMAL"
  by (auto simp add: hazard_state_def)

section \<open>Entering the emergency stop\<close>




section \<open>The change gate\<close>




section \<open>The candidate of a tick\<close>

text \<open>
  Claim C5, as stated, fails: a gamepad is present with its stick beyond the deadzone
  (\<^verbatim>\<open>x_dir\<close> is 0.5) and no button is held. The candidate of the tick is (0, 0): the
  tick builds it from the buttons alone and never reads \<^verbatim>\<open>x_dir\<close> or \<^verbatim>\<open>z_dir\<close>.
\<close>

theorem candidate_counterexample:
  "x_dir g_stick = 1 / 2 \<and> z_dir g_stick = 0 \<and>
   manual_direction (button_states g_stick) = (0, 0) \<and>
   snd (update_output g_stick) = Some ((0, 0, 1 / 2), False) \<and>
   fst (fst (the (snd (update_output g_stick)))) \<noteq>
     fst (manual_direction (button_states g_stick)) + x_dir g_stick"
proof -
  have m: "manual_direction (button_states g_stick) = (0, 0)"
    by (simp add: g_stick_eq init_def manual_direction_def)
  have u: "snd (update_output g_stick) = Some ((0, 0, 1 / 2), False)"
    by (simp add: update_output_call m) (simp add: g_stick_eq init_def exceeds_def deadzone_def)
  have d: "x_dir g_stick = 1 / 2 \<and> z_dir g_stick = 0"
    by (simp add: g_stick_eq)
  from m u d show ?thesis by simp
qed

text \<open>
  Claim C5, as amended. The candidate direction of every dispatch tick equals the manual
  button contribution alone (plus or minus 1 per axis); the controller axis contribution
  is kept in \<^verbatim>\<open>x_dir\<close> and \<^verbatim>\<open>z_dir\<close> and is not added to it, so the call of a tick
  is the same whatever those two fields hold.
\<close>

theorem candidate_manual_only:
  "(snd (update_output g) = Some ((x, z, s), ov) \<longrightarrow>
      (x, z) = manual_direction (button_states g) \<and> s = speed g \<and> ov = safe_mode_override g) \<and>
   snd (update_output (g\<lparr>x_dir := a, z_dir := b\<rparr>)) = snd (update_output g)"
  by (auto simp add: update_output_call)

theorem candidate_manual_only_witness:
  "snd (update_output g_cruise) = Some ((1, 0, 1 / 2), False) \<and>
   (1, 0) = manual_direction (button_states g_cruise) \<and>
   snd (update_output (g_cruise\<lparr>x_dir := 1 / 2, z_dir := 1 / 2\<rparr>)) = Some ((1, 0, 1 / 2), False)"
proof -
  have c: "snd (update_output g_cruise) = Some ((1, 0, 1 / 2), False)"
    by (simp add: update_output_call)
       (simp add: g_cruise_def init_def manual_direction_def exceeds_def deadzone_def)
  from candidate_manual_only [of g_cruise 1 0 "1 / 2" False "1 / 2" "1 / 2"] c
  show ?thesis by simp
qed

section \<open>The magnitude of the direction\<close>

text \<open>
  Claim C6, as stated, fails: with forward and left held together the tick sends the
  direction (1, 1), of magnitude above 1; the button direction is not scaled.
\<close>

theorem magnitude_counterexample:
  "manual_direction (button_states g_diagonal) = (1, 1) \<and>
   snd (update_output g_diagonal) = Some ((1, 1, 0), False) \<and>
   sqrt ((fst (manual_direction (button_states g_diagonal)))\<^sup>2 +
         (snd (manual_direction (button_states g_diagonal)))\<^sup>2) > 1"
proof -
  have m: "manual_direction (button_states g_diagonal) = (1, 1)"
    by (simp add: g_diagonal_def init_def manual_direction_def)
  have u: "snd (update_output g_diagonal) = Some ((1, 1, 0), False)"
    by (simp add: update_output_call m) (simp add: g_diagonal_def init_def exceeds_def deadzone_def)
  from m u show ?thesis by simp
qed

text \<open>
  Claim C6, as amended. For all controller axis values the Euclidean magnitude of the
  controller direction (\<^verbatim>\<open>x_dir\<close>, \<^verbatim>\<open>z_dir\<close>) never exceeds 1.0: whenever the norm of
  the stick vector after the deadzone exceeds 1, both components are divided by that norm,
  and otherwise the vector is kept; every poll keeps the stored direction within
  magnitude 1. The button direction of the dispatch tick is not scaled: each of its
  components is -1, 0 or 1.
\<close>

theorem stick_magnitude:
  "sqrt ((fst (stick_direction left_x left_y))\<^sup>2 + (snd (stick_direction left_x left_y))\<^sup>2) \<le> 1 \<and>
   (let d = deadzone_dir left_x left_y; m = sqrt ((fst d)\<^sup>2 + (snd d)\<^sup>2)
    in stick_direction left_x left_y = (if m > 1 then (fst d / m, snd d / m) else d)) \<and>
   (sqrt ((x_dir g)\<^sup>2 + (z_dir g)\<^sup>2) \<le> 1 \<longrightarrow>
      sqrt ((x_dir (fst (update_gamepad t pad g)))\<^sup>2 +
            (z_dir (fst (update_gamepad t pad g)))\<^sup>2) \<le> 1) \<and>
   fst (manual_direction bs) \<in> {- 1, 0, 1} \<and> snd (manual_direction bs) \<in> {- 1, 0, 1}"
proof -
  have a: "let d = deadzone_dir left_x left_y; m = sqrt ((fst d)\<^sup>2 + (snd d)\<^sup>2)
    in stick_direction left_x left_y = (if m > 1 then (fst d / m, snd d / m) else d)"
    by (cases "deadzone_dir left_x left_y") (simp add: stick_direction_def normalize_def Let_def)
  from a stick_direction_norm [of left_x left_y] update_gamepad_keeps_unit [of g t pad]
    manual_cases [of bs]
  show ?thesis by blast
qed

theorem stick_magnitude_witness:
  "stick_direction 1 (- (3 / 4)) = (3 / 5, 4 / 5) \<and>
   sqrt ((3 / 5)\<^sup>2 + (4 / 5)\<^sup>2) \<le> (1 :: real) \<and>
   sqrt ((x_dir (init True 50))\<^sup>2 + (z_dir (init True 50))\<^sup>2) \<le> 1 \<and>
   sqrt ((x_dir (fst (update_gamepad 0 (Some pad_corner) (init True 50))))\<^sup>2 +
         (z_dir (fst (update_gamepad 0 (Some pad_corner) (init True 50))))\<^sup>2) \<le> 1"
proof -
  have i: "sqrt ((x_dir (init True 50))\<^sup>2 + (z_dir (init True 50))\<^sup>2) \<le> 1"
    by (simp add: init_def)
  from stick_magnitude [of 1 "- (3 / 4)" "init True 50" 0 "Some pad_corner"] i stick_corner
  show ?thesis by simp
qed

section \<open>The deadzone of the stick\<close>

text \<open>
  Claim C7, as stated, fails for axis 1: a reading of 0.5, beyond the deadzone, contributes
  -0.5 to the forward component, not its raw value.
\<close>

theorem deadzone_counterexample:
  "\<bar>1 / 2 :: real\<bar> > stick_deadzone \<and>
   fst (deadzone_dir 0 (1 / 2)) = - (1 / 2) \<and>
   fst (deadzone_dir 0 (1 / 2)) \<noteq> 1 / 2"
  by (simp add: deadzone_dir_def stick_deadzone_def)

text \<open>
  Claim C7, as amended. The deadzone is 0.2. An axis reading \<open>v\<close> with \<open>\<bar>v\<bar> \<le> 0.2\<close>
  contributes exactly 0 to the direction vector, before and after the scaling. A reading
  beyond the deadzone contributes, before the scaling, its raw value for axis 0 (to the
  turn component) and the negation of its raw value for axis 1 (to the forward component):
  axis 0 at 0.05 contributes 0, axis 0 at 0.5 contributes 0.5.
\<close>

theorem deadzone_axes:
  "stick_deadzone = 2 / 10 \<and>
   (\<bar>left_x\<bar> \<le> stick_deadzone \<longrightarrow>
      snd (deadzone_dir left_x left_y) = 0 \<and> snd (stick_direction left_x left_y) = 0) \<and>
   (\<bar>left_y\<bar> \<le> stick_deadzone \<longrightarrow>
      fst (deadzone_dir left_x left_y) = 0 \<and> fst (stick_direction left_x left_y) = 0) \<and>
   (\<bar>left_x\<bar> > stick_deadzone \<longrightarrow> snd (deadzone_dir left_x left_y) = left_x) \<and>
   (\<bar>left_y\<bar> > stick_deadzone \<longrightarrow> fst (deadzone_dir left_x left_y) = - left_y) \<and>
   snd (deadzone_dir (5 / 100) left_y) = 0 \<and>
   snd (deadzone_dir (5 / 10) left_y) = 5 / 10"
  by (simp add: deadzone_dir_def stick_direction_def normalize_def stick_deadzone_def Let_def)

theorem deadzone_axes_witness:
  "\<bar>5 / 100 :: real\<bar> \<le> stick_deadzone \<and> \<bar>- (3 / 4) :: real\<bar> > stick_deadzone \<and>
   deadzone_dir (5 / 100) (- (3 / 4)) = (3 / 4, 0) \<and>
   \<bar>1 / 2 :: real\<bar> > stick_deadzone \<and> \<bar>1 / 10 :: real\<bar> \<le> stick_deadzone \<and>
   deadzone_dir (1 / 2) (1 / 10) = (0, 1 / 2)"
  using deadzone_axes [of "5 / 100" "- (3 / 4)"] deadzone_axes [of "1 / 2" "1 / 10"]
  by (simp add: prod_eq_iff)

section \<open>The manual buttons\<close>

text \<open>
  Claim C8. When both opposing buttons of an axis are held (forward and backward, or left
  and right), the manual contribution to that axis is exactly 0.
\<close>

theorem manual_cancel:
  "(bs Forward \<and> bs Backward \<longrightarrow> fst (manual_direction bs) = 0) \<and>
   (bs Left \<and> bs Right \<longrightarrow> snd (manual_direction bs) = 0)"
  by (simp add: manual_direction_def Let_def)

theorem manual_cancel_witness:
  "fst (manual_direction (\<lambda>b. b = Forward \<or> b = Backward)) = 0 \<and>
   snd (manual_direction (\<lambda>b. b = Left \<or> b = Right)) = 0"
  using manual_cancel [of "\<lambda>b. b = Forward \<or> b = Backward"]
        manual_cancel [of "\<lambda>b. b = Left \<or> b = Right"]
  by simp

section \<open>The recorded values\<close>




section \<open>The state at startup\<close>

text \<open>
  Claim C10. At startup, before any hazard sample has arrived, the stored hazard distance
  is 999.0, which is strictly above every threshold the slider can set (positions 10 to
  100, that is 1.0 to 10.0 m); the initial safety state is NORMAL, the emergency flag is
  off, and the interlock passes every intent.
\<close>

theorem startup_normal:
  "hazard_distance (init pad s) = 999 \<and>
   \<not> emergency_active (init pad s) \<and>
   hazard_state (hazard_distance (init pad s)) (hazard_threshold (init pad s)) = NORMAL \<and>
   (\<forall>v. threshold_slider_min \<le> v \<and> v \<le> threshold_slider_max \<longrightarrow>
      1 \<le> threshold_of_slider v \<and> threshold_of_slider v \<le> 10 \<and>
      threshold_of_slider v < hazard_distance (init pad s) \<and>
      hazard_state (hazard_distance (init pad s)) (threshold_of_slider v) = NORMAL \<and>
      (\<forall>ov i. gate i (hazard_state (hazard_distance (init pad s)) (threshold_of_slider v)) ov
                 = (i, NORMAL_OPERATION)))"
  by (simp add: init_def hazard_state_def threshold_of_slider_def threshold_slider_min_def
      threshold_slider_max_def gate_def effective_def)

theorem startup_normal_witness:
  "threshold_slider_min \<le> 100 \<and> 100 \<le> threshold_slider_max \<and>
   threshold_of_slider 100 = 10 \<and>
   threshold_of_slider 100 < hazard_distance (init False 50) \<and>
   hazard_state (hazard_distance (init False 50)) (threshold_of_slider 100) = NORMAL \<and>
   gate (1, 0, 1 / 2) (hazard_state (hazard_distance (init False 50)) (threshold_of_slider 100)) False
     = ((1, 0, 1 / 2), NORMAL_OPERATION)"
proof -
  have r: "threshold_slider_min \<le> 100 \<and> 100 \<le> threshold_slider_max"
    by (simp add: threshold_slider_min_def threshold_slider_max_def)
  have v: "threshold_of_slider 100 = 10"
    by (simp add: threshold_of_slider_def)
  from startup_normal [of False 50] r
  have "1 \<le> threshold_of_slider 100 \<and> threshold_of_slider 100 \<le> 10 \<and>
      threshold_of_slider 100 < hazard_distance (init False 50) \<and>
      hazard_state (hazard_distance (init False 50)) (threshold_of_slider 100) = NORMAL \<and>
      (\<forall>ov i. gate i (hazard_state (hazard_distance (init False 50)) (threshold_of_slider 100)) ov
                 = (i, NORMAL_OPERATION))"
    by blast
  then have "threshold_of_slider 100 < hazard_distance (init False 50) \<and>
      hazard_state (hazard_distance (init False 50)) (threshold_of_slider 100) = NORMAL \<and>
      gate (1, 0, 1 / 2) (hazard_state (hazard_distance (init False 50)) (threshold_of_slider 100))
        False = ((1, 0, 1 / 2), NORMAL_OPERATION)"
    by blast
  with r v show ?thesis by blast
qed

end
